theory Spec2Isabelle
  imports Complex_Main "HOL-Library.Char_ord" "HOL-Library.List_Lexorder"
    "HOL-Library.Product_Lexorder" "HOL-Library.Sublist"
begin

section \<open>Python strings\<close>

text \<open>
  A Python \<^verbatim>\<open>str\<close> is modelled as a \<^typ>\<open>string\<close> of ASCII characters.
  \<^verbatim>\<open>str.strip()\<close> removes leading and trailing white space (the ASCII characters
  for which \<^verbatim>\<open>str.isspace\<close> holds: 9 to 13, 28 to 31 and 32), \<^verbatim>\<open>str.strip(chars)\<close>
  removes leading and trailing characters that occur in \<^verbatim>\<open>chars\<close>, \<^verbatim>\<open>str.lower()\<close>
  maps \<^verbatim>\<open>A..Z\<close> to \<^verbatim>\<open>a..z\<close>, and \<^verbatim>\<open>sub in s\<close> is the substring test.
\<close>

definition isspace :: "char \<Rightarrow> bool" where
  "isspace c =
     (c \<in> set [CHR 0x09, CHR 0x0A, CHR 0x0B, CHR 0x0C, CHR 0x0D,
                CHR 0x1C, CHR 0x1D, CHR 0x1E, CHR 0x1F, CHR 0x20])"

definition lower_char :: "char \<Rightarrow> char" where
  "lower_char c =
     (case map_of (zip ''ABCDEFGHIJKLMNOPQRSTUVWXYZ'' ''abcdefghijklmnopqrstuvwxyz'') c of
        None \<Rightarrow> c
      | Some l \<Rightarrow> l)"

definition lower :: "string \<Rightarrow> string" where
  "lower s = map lower_char s"

definition strip_where :: "(char \<Rightarrow> bool) \<Rightarrow> string \<Rightarrow> string" where
  "strip_where p s = rev (dropWhile p (rev (dropWhile p s)))"

definition strip :: "string \<Rightarrow> string" where
  "strip s = strip_where isspace s"

definition strip_chars :: "string \<Rightarrow> string \<Rightarrow> string" where
  "strip_chars chars s = strip_where (\<lambda>c. c \<in> set chars) s"

fun contains :: "string \<Rightarrow> string \<Rightarrow> bool" where
  "contains sub [] = (sub = [])"
| "contains sub (c # cs) = (prefix sub (c # cs) \<or> contains sub cs)"

section \<open>Column normalizer (line 15)\<close>

text \<open>
  \<^verbatim>\<open>col.strip().strip('"').strip("'")\<close>: white space first, then double quotes,
  then single quotes (character 39).
\<close>

definition clean_col :: "string \<Rightarrow> string" where
  "clean_col col = strip_chars [CHR 0x27] (strip_chars [CHR 0x22] (strip col))"

text \<open>A header is clean when it neither begins nor ends with a character that one of the
  three strips removes.\<close>

definition strippable :: "char \<Rightarrow> bool" where
  "strippable c = (isspace c \<or> c = CHR 0x22 \<or> c = CHR 0x27)"

definition clean_header :: "string \<Rightarrow> bool" where
  "clean_header h = (case h of [] \<Rightarrow> True | c # cs \<Rightarrow> \<not> strippable c \<and> \<not> strippable (last h))"

section \<open>Type normalizer (lines 35 to 43)\<close>

text \<open>
  A cell of a text column is a \<^typ>\<open>string option\<close>: \<open>None\<close> is the missing value
  (NaN) that \<^verbatim>\<open>pd.isna\<close> recognises, which is also what \<^verbatim>\<open>read_csv\<close> loads for an
  empty field. The function returns \<^verbatim>\<open>None\<close> or a string. Its last line returns the
  reassigned local \<^verbatim>\<open>type_val\<close>, that is, the stripped and lower-cased text.
\<close>

definition normalize_type :: "string option \<Rightarrow> string option" where
  "normalize_type type_val =
     (case type_val of
        None \<Rightarrow> None
      | Some v \<Rightarrow>
          (let type_val = lower (strip v) in
           if type_val \<in> set [''purchase'', ''buy'', ''bought''] then Some ''purchase''
           else if type_val \<in> set [''sale'', ''sell'', ''sold''] then Some ''sale''
           else Some type_val))"

section \<open>Category classifier (lines 107 to 120)\<close>

definition categorize_item :: "string option \<Rightarrow> string" where
  "categorize_item market_name =
     (case market_name of
        None \<Rightarrow> ''Unknown''
      | Some market_name \<Rightarrow>
          if contains ''Capsule'' market_name then ''Capsules''
          else if contains ''Case'' market_name then ''Cases''
          else if contains ''Charm'' market_name then ''Charms''
          else if contains ''Sticker'' market_name then ''Stickers''
          else ''Weapons'')"

section \<open>The data frame\<close>

text \<open>
  The script reads five columns of the loaded table: the text columns \<^verbatim>\<open>Game Name\<close>,
  \<^verbatim>\<open>Acted On\<close>, \<^verbatim>\<open>Type\<close>, \<^verbatim>\<open>Market Name\<close> and the price column
  found by the header search. A row of the frame is a record of these five cells; the
  frame is the list of its rows in file order. \<open>None\<close> is a missing cell (NaN, NaT).
  The types of the date and price cells change as the script coerces these columns.

  A price cell as \<^verbatim>\<open>read_csv\<close> loads it is missing, a number, or text. Numbers are
  exact rationals here, in place of the 64-bit floats of the library.
\<close>

record ('t, 'p) row =
  Game_Name :: "string option"
  Acted_On :: "'t option"
  Type :: "string option"
  Market_Name :: "string option"
  Price :: "'p"

datatype price_cell = NaN | Num rat | Text string

record csv =
  columns :: "string list"
  rows :: "(string, price_cell) row list"

text \<open>
  Three library functions are parameters of the model: \<open>parse\<close> is what
  \<^verbatim>\<open>pd.to_numeric\<close> makes of a text cell (\<open>None\<close> when it is not a number),
  \<open>to_datetime\<close> is \<^verbatim>\<open>pd.to_datetime\<close> with the format \<^verbatim>\<open>%d %b\<close> (\<open>None\<close> when the
  text does not parse), and \<open>strftime\<close> formats a parsed date as \<^verbatim>\<open>%Y-%m-%d\<close>.
\<close>

definition to_numeric :: "(string \<Rightarrow> rat option) \<Rightarrow> price_cell \<Rightarrow> rat option" where
  "to_numeric parse c = (case c of NaN \<Rightarrow> None | Num x \<Rightarrow> Some x | Text s \<Rightarrow> parse s)"

section \<open>Row filter and coercions (lines 31 to 56)\<close>

definition cs2_filter :: "('t, 'p) row list \<Rightarrow> ('t, 'p) row list" where
  "cs2_filter df = filter (\<lambda>r. Game_Name r = Some ''Counter-Strike 2'') df"

definition apply_normalize_type :: "('t, 'p) row list \<Rightarrow> ('t, 'p) row list" where
  "apply_normalize_type df = map (\<lambda>r. r\<lparr>Type := normalize_type (Type r)\<rparr>) df"

definition coerce_price ::
  "(string \<Rightarrow> rat option) \<Rightarrow> ('t, price_cell) row \<Rightarrow> ('t, rat option) row" where
  "coerce_price parse r =
     \<lparr>Game_Name = Game_Name r, Acted_On = Acted_On r, Type = Type r,
      Market_Name = Market_Name r, Price = to_numeric parse (Price r)\<rparr>"

definition dropna :: "('t, 'p option) row list \<Rightarrow> ('t, 'p option) row list" where
  "dropna df =
     filter (\<lambda>r. Price r \<noteq> None \<and> Acted_On r \<noteq> None \<and> Type r \<noteq> None \<and> Market_Name r \<noteq> None) df"

definition coerce_date :: "(string \<Rightarrow> 't option) \<Rightarrow> (string, 'p) row \<Rightarrow> ('t, 'p) row" where
  "coerce_date to_datetime r =
     \<lparr>Game_Name = Game_Name r, Acted_On = Option.bind (Acted_On r) to_datetime, Type = Type r,
      Market_Name = Market_Name r, Price = Price r\<rparr>"

definition dropna_date :: "('t, 'p) row list \<Rightarrow> ('t, 'p) row list" where
  "dropna_date df = filter (\<lambda>r. Acted_On r \<noteq> None) df"

text \<open>The frame \<^verbatim>\<open>cs2_df\<close> as it stands at line 56.\<close>

definition cs2_df ::
  "(string \<Rightarrow> rat option) \<Rightarrow> (string \<Rightarrow> 't option) \<Rightarrow> (string, price_cell) row list
     \<Rightarrow> ('t, rat option) row list" where
  "cs2_df parse to_datetime df =
     dropna_date (map (coerce_date to_datetime)
       (dropna (map (coerce_price parse) (apply_normalize_type (cs2_filter df)))))"

definition has_valid_type :: "('t, 'p) row list \<Rightarrow> bool" where
  "has_valid_type df = (\<exists>r \<in> set df. Type r \<in> set [Some ''purchase'', Some ''sale''])"

section \<open>Aggregation (lines 64 to 100)\<close>

text \<open>
  \<^verbatim>\<open>Series.sum()\<close> skips missing values. \<^verbatim>\<open>round(x, 2)\<close> rounds to the nearest
  hundredth, a tie going to the even one.
\<close>

fun nansum :: "rat option list \<Rightarrow> rat" where
  "nansum [] = 0"
| "nansum (None # xs) = nansum xs"
| "nansum (Some x # xs) = x + nansum xs"

definition rint :: "rat \<Rightarrow> int" where
  "rint x =
     (let f = \<lfloor>x\<rfloor>; d = x - of_int f in
      if d < 1 / 2 then f else if 1 / 2 < d then f + 1 else if even f then f else f + 1)"

definition round2 :: "rat \<Rightarrow> rat" where
  "round2 x = of_int (rint (x * 100)) / 100"

definition purchases :: "('t, 'p) row list \<Rightarrow> ('t, 'p) row list" where
  "purchases df = filter (\<lambda>r. Type r = Some ''purchase'') df"

definition sales :: "('t, 'p) row list \<Rightarrow> ('t, 'p) row list" where
  "sales df = filter (\<lambda>r. Type r = Some ''sale'') df"

definition total_spent :: "('t, rat option) row list \<Rightarrow> rat" where
  "total_spent df = nansum (map Price (purchases df)) / 100"

definition total_earned :: "('t, rat option) row list \<Rightarrow> rat" where
  "total_earned df = nansum (map Price (sales df)) / 100"

definition net_flow :: "('t, rat option) row list \<Rightarrow> rat" where
  "net_flow df = total_earned df - total_spent df"

text \<open>
  \<^verbatim>\<open>Series.idxmax()\<close> scans the column once, skips missing values and keeps the first
  position that holds the largest value; the frame's labels are the positions of its
  rows in the file, kept by every filter, so \<^verbatim>\<open>loc\<close> of that label is the row at that
  position of the list. On a column of missing values only, the lookup fails.
\<close>

fun idxmax_from :: "nat \<Rightarrow> (nat \<times> rat) option \<Rightarrow> rat option list \<Rightarrow> (nat \<times> rat) option" where
  "idxmax_from i best [] = best"
| "idxmax_from i best (None # xs) = idxmax_from (Suc i) best xs"
| "idxmax_from i best (Some x # xs) =
     idxmax_from (Suc i)
       (case best of
          None \<Rightarrow> Some (i, x)
        | Some (j, y) \<Rightarrow> if y < x then Some (i, x) else Some (j, y)) xs"

definition idxmax :: "rat option list \<Rightarrow> nat option" where
  "idxmax xs = map_option fst (idxmax_from 0 None xs)"

datatype error =
  FileNotFound
| NoPriceColumn
| MissingColumns "string list"
| NoValidTransactions
| IdxmaxAllMissing
| KeyError "string list"

definition highest_transaction ::
  "('t, rat option) row list \<Rightarrow> error + ('t, rat option) row option" where
  "highest_transaction df =
     (if df \<noteq> [] then
        (case idxmax (map Price df) of
           None \<Rightarrow> Inl IdxmaxAllMissing
         | Some i \<Rightarrow> Inr (Some (df ! i)))
      else Inr None)"

text \<open>
  The \<^verbatim>\<open>highest_transaction\<close> object of the summary (lines 94 to 98). A field is the
  row's cell, or the default of \<^verbatim>\<open>get\<close> when there is no row.
\<close>

record highest =
  market_name :: "string option"
  price_eur :: "rat option"
  type_name :: "string option"

definition summary_highest :: "('t, rat option) row option \<Rightarrow> highest" where
  "summary_highest h =
     (case h of
        None \<Rightarrow>
          \<lparr>market_name = Some ''None'', price_eur = Some (round2 (0 / 100)), type_name = Some []\<rparr>
      | Some r \<Rightarrow>
          \<lparr>market_name = Market_Name r,
           price_eur = map_option (\<lambda>x. round2 (x / 100)) (Price r),
           type_name = Type r\<rparr>)"

text \<open>
  \<^verbatim>\<open>groupby\<close> leaves out the rows whose key is missing and orders the groups by key.
  \<^verbatim>\<open>count\<close> is the number of cells of the group that are not missing.
\<close>

definition group_keys :: "('r \<Rightarrow> 'k::linorder option) \<Rightarrow> 'r list \<Rightarrow> 'k list" where
  "group_keys key df = sort (remdups (List.map_filter key df))"

definition get_group :: "('r \<Rightarrow> 'k option) \<Rightarrow> 'k \<Rightarrow> 'r list \<Rightarrow> 'r list" where
  "get_group key k df = filter (\<lambda>r. key r = Some k) df"

definition count_col :: "'a option list \<Rightarrow> nat" where
  "count_col xs = length (filter (\<lambda>x. x \<noteq> None) xs)"

record item_detail =
  item_Market_Name :: string
  transaction_count :: nat
  total_eur :: rat

definition item_details :: "('t, rat option) row list \<Rightarrow> item_detail list" where
  "item_details df =
     map (\<lambda>k. let g = get_group Market_Name k df in
            \<lparr>item_Market_Name = k,
             transaction_count = count_col (map Price g),
             total_eur = nansum (map Price g) / 100\<rparr>)
       (group_keys Market_Name df)"

text \<open>
  The summary without \<^verbatim>\<open>most_purchased_item\<close> and \<^verbatim>\<open>type_breakdown\<close>: both come
  from \<^verbatim>\<open>value_counts\<close>, and nothing below is about them.
\<close>

record summary =
  summary_total_spent :: rat
  summary_total_earned :: rat
  summary_net_flow :: rat
  purchase_count :: nat
  sale_count :: nat
  summary_highest_transaction :: highest
  summary_item_details :: "item_detail list"

definition make_summary :: "('t, rat option) row list \<Rightarrow> ('t, rat option) row option \<Rightarrow> summary" where
  "make_summary df h =
     \<lparr>summary_total_spent = round2 (total_spent df),
      summary_total_earned = round2 (total_earned df),
      summary_net_flow = round2 (net_flow df),
      purchase_count = length (purchases df),
      sale_count = length (sales df),
      summary_highest_transaction = summary_highest h,
      summary_item_details = item_details df\<rparr>"

section \<open>Category bar data (lines 122 to 126)\<close>

definition Category :: "('t, 'p) row \<Rightarrow> string option" where
  "Category r = Some (categorize_item (Market_Name r))"

definition Category_Type :: "('t, 'p) row \<Rightarrow> (string \<times> string) option" where
  "Category_Type r =
     (case (Category r, Type r) of (Some c, Some t) \<Rightarrow> Some (c, t) | _ \<Rightarrow> None)"

text \<open>
  Line 123: \<^verbatim>\<open>groupby(["Category", "Type"])[price_col].sum().unstack(fill_value=0) / 100\<close>.
  The wide table has one line per category of the groups and one column per type of
  the groups, both in order; a cell is the sum of its group, or the fill value when the
  frame has no such group, divided by 100.
\<close>

record wide =
  wide_index :: "string list"
  wide_columns :: "string list"
  wide_cell :: "string \<Rightarrow> string \<Rightarrow> rat"

definition unstacked :: "('t, rat option) row list \<Rightarrow> wide" where
  "unstacked df =
     (let keys = group_keys Category_Type df in
      \<lparr>wide_index = sort (remdups (map fst keys)),
       wide_columns = sort (remdups (map snd keys)),
       wide_cell = (\<lambda>c t.
         (if (c, t) \<in> set keys then nansum (map Price (get_group Category_Type (c, t) df))
          else 0) / 100)\<rparr>)"

text \<open>
  Line 124: \<^verbatim>\<open>melt\<close> raises \<^verbatim>\<open>KeyError\<close> when one of \<^verbatim>\<open>value_vars\<close> is not a
  column of the table; otherwise the long table lists, for each of them in turn, every
  line's category with that column's name and cell.
\<close>

definition melt :: "wide \<Rightarrow> string list \<Rightarrow> error + (string \<times> string \<times> rat) list" where
  "melt w value_vars =
     (let missing = filter (\<lambda>v. v \<notin> set (wide_columns w)) value_vars in
      if missing \<noteq> [] then Inl (KeyError missing)
      else Inr (concat (map (\<lambda>v. map (\<lambda>c. (c, v, wide_cell w c v)) (wide_index w)) value_vars)))"

text \<open>
  Lines 125 and 126: \<^verbatim>\<open>pivot\<close> on the category, \<^verbatim>\<open>fillna(0)\<close>, and the renaming
  of \<^verbatim>\<open>purchase\<close> to \<^verbatim>\<open>spent\<close> and of \<^verbatim>\<open>sale\<close> to \<^verbatim>\<open>earned\<close>.
\<close>

definition amount :: "(string \<times> string \<times> rat) list \<Rightarrow> string \<Rightarrow> string \<Rightarrow> rat" where
  "amount long c t =
     (case find (\<lambda>(c', t', a). c' = c \<and> t' = t) long of
        None \<Rightarrow> 0
      | Some (c', t', a) \<Rightarrow> a)"

record bar =
  bar_Category :: string
  spent :: rat
  earned :: rat

definition pivot_records :: "(string \<times> string \<times> rat) list \<Rightarrow> bar list" where
  "pivot_records long =
     map (\<lambda>c. \<lparr>bar_Category = c, spent = amount long c ''purchase'', earned = amount long c ''sale''\<rparr>)
       (sort (remdups (map fst long)))"

definition bar_data :: "('t, rat option) row list \<Rightarrow> error + bar list" where
  "bar_data df =
     (case melt (unstacked df) [''purchase'', ''sale''] of
        Inl e \<Rightarrow> Inl e
      | Inr long \<Rightarrow> Inr (pivot_records long))"

section \<open>Time series and type distribution (lines 132 to 150)\<close>

definition Date :: "('t \<Rightarrow> string) \<Rightarrow> ('t, 'p) row \<Rightarrow> string option" where
  "Date strftime r = map_option strftime (Acted_On r)"

definition Date_Market_Name :: "('t \<Rightarrow> string) \<Rightarrow> ('t, 'p) row \<Rightarrow> (string \<times> string) option" where
  "Date_Market_Name strftime r =
     (case (Date strftime r, Market_Name r) of (Some d, Some m) \<Rightarrow> Some (d, m) | _ \<Rightarrow> None)"

record line =
  line_Date :: string
  line_Market_Name :: string
  line_value :: rat
  line_count :: nat

definition line_data :: "('t \<Rightarrow> string) \<Rightarrow> ('t, rat option) row list \<Rightarrow> line list" where
  "line_data strftime df =
     map (\<lambda>(d, m). let g = get_group (Date_Market_Name strftime) (d, m) df in
            \<lparr>line_Date = d, line_Market_Name = m,
             line_value = nansum (map Price g) / 100,
             line_count = count_col (map Market_Name g)\<rparr>)
       (group_keys (Date_Market_Name strftime) df)"

definition pie_data :: "('t, 'p) row list \<Rightarrow> (string \<times> nat) list" where
  "pie_data df = [(''Purchases'', length (purchases df)), (''Sales'', length (sales df))]"

section \<open>The script\<close>

text \<open>
  A run ends with an exit status and the files it has written by then. The input is the
  loaded table, or \<open>None\<close> when the file does not exist. An \<^verbatim>\<open>exit(1)\<close> and an
  exception that nothing catches both end the run with status 1.
\<close>

record files =
  summary_json :: "summary option"
  bar_data_json :: "bar list option"
  line_data_json :: "line list option"
  pie_data_json :: "(string \<times> nat) list option"
  index_html :: bool

record outcome =
  exit_code :: nat
  failure :: "error option"
  written :: files

definition no_files :: files where
  "no_files =
     \<lparr>summary_json = None, bar_data_json = None, line_data_json = None,
      pie_data_json = None, index_html = False\<rparr>"

definition fail :: "error \<Rightarrow> files \<Rightarrow> outcome" where
  "fail e fs = \<lparr>exit_code = 1, failure = Some e, written = fs\<rparr>"

definition price_col :: "string list \<Rightarrow> string option" where
  "price_col cols = find (\<lambda>col. contains ''Price'' col \<and> contains ''Cents'' col) cols"

definition required_cols :: "string list" where
  "required_cols = [''Game Name'', ''Acted On'', ''Type'', ''Market Name'']"

definition main ::
  "(string \<Rightarrow> rat option) \<Rightarrow> (string \<Rightarrow> 't option) \<Rightarrow> ('t \<Rightarrow> string) \<Rightarrow> csv option \<Rightarrow> outcome" where
  "main parse to_datetime strftime file =
     (case file of
        None \<Rightarrow> fail FileNotFound no_files
      | Some f \<Rightarrow>
          (let cols = map clean_col (columns f) in
           case price_col cols of
             None \<Rightarrow> fail NoPriceColumn no_files
           | Some pc \<Rightarrow>
               (let missing_cols = filter (\<lambda>col. col \<notin> set cols) required_cols in
                if missing_cols \<noteq> [] then fail (MissingColumns missing_cols) no_files
                else
                  (let df = cs2_df parse to_datetime (rows f) in
                   if \<not> has_valid_type df then fail NoValidTransactions no_files
                   else
                     (case highest_transaction df of
                        Inl e \<Rightarrow> fail e no_files
                      | Inr h \<Rightarrow>
                          (let fs = no_files\<lparr>summary_json := Some (make_summary df h)\<rparr> in
                           case bar_data df of
                             Inl e \<Rightarrow> fail e fs
                           | Inr bars \<Rightarrow>
                               \<lparr>exit_code = 0, failure = None,
                                written = fs\<lparr>bar_data_json := Some bars,
                                  line_data_json := Some (line_data strftime df),
                                  pie_data_json := Some (pie_data df),
                                  index_html := True\<rparr>\<rparr>))))))"

section \<open>Predicates used in the statements\<close>



section \<open>Sample inputs\<close>

text \<open>
  Instances of the three library parameters and a few tables, on which the statements
  below are evaluated. A parsed date is represented by its ISO text.
\<close>

definition sample_parse :: "string \<Rightarrow> rat option" where
  "sample_parse s = map_of [(''12'', 12)] s"

definition sample_to_datetime :: "string \<Rightarrow> string option" where
  "sample_to_datetime s = map_of [(''05 Jan'', ''1900-01-05''), (''06 Jan'', ''1900-01-06'')] s"

definition sample_strftime :: "string \<Rightarrow> string" where
  "sample_strftime d = d"

definition sample_row ::
  "string \<Rightarrow> string \<Rightarrow> string \<Rightarrow> string \<Rightarrow> price_cell \<Rightarrow> (string, price_cell) row" where
  "sample_row g d t m p =
     \<lparr>Game_Name = Some g, Acted_On = Some d, Type = Some t, Market_Name = Some m, Price = p\<rparr>"

definition sample_columns :: "string list" where
  "sample_columns = [''Game Name'', '' Acted On '', ''Type'', ''Market Name'', ''Price in Cents'']"

definition sample_rows :: "(string, price_cell) row list" where
  "sample_rows =
     [sample_row ''Counter-Strike 2'' ''05 Jan'' ''Sold'' ''AK-47 | Redline'' (Num 1050),
      sample_row ''Counter-Strike 2'' ''06 Jan'' ''buy'' ''Sticker Capsule'' (Num (1 / 2)),
      sample_row ''Counter-Strike 2'' ''06 Jan'' ''BUY'' ''Weapon Case'' (Num 1050),
      sample_row ''Dota 2'' ''05 Jan'' ''buy'' ''Treasure'' (Num 99999),
      sample_row ''Counter-Strike 2'' ''32 Foo'' ''buy'' ''Weapon Case'' (Num 7),
      sample_row ''Counter-Strike 2'' ''05 Jan'' ''buy'' ''Weapon Case'' (Text ''n/a''),
      sample_row ''Counter-Strike 2'' ''05 Jan'' ''Refund'' ''AK-47 | Redline'' (Num (- 5))]"

definition sample_csv :: csv where
  "sample_csv = \<lparr>columns = sample_columns, rows = sample_rows\<rparr>"

definition purchases_only_csv :: csv where
  "purchases_only_csv =
     \<lparr>columns = sample_columns,
      rows = [sample_row ''Counter-Strike 2'' ''06 Jan'' ''buy'' ''Weapon Case'' (Num 250)]\<rparr>"

definition refunds_only_csv :: csv where
  "refunds_only_csv =
     \<lparr>columns = sample_columns,
      rows = [sample_row ''Counter-Strike 2'' ''05 Jan'' ''Refund'' ''AK-47 | Redline'' (Num 1050)]\<rparr>"

section \<open>Properties of the string functions\<close>

lemma contains_iff_sublist: "contains sub s \<longleftrightarrow> sublist sub s"
  by (induction s) (auto simp: sublist_Cons_right)

lemma strip_where_id:
  assumes "s = [] \<or> (\<not> p (hd s) \<and> \<not> p (last s))"
  shows "strip_where p s = s"
proof (cases s)
  case Nil
  then show ?thesis by (simp add: strip_where_def)
next
  case (Cons c cs)
  with assms have h: "\<not> p c" and l: "\<not> p (last s)" by auto
  from h Cons have 1: "dropWhile p s = s" by simp
  from Cons have eq: "rev s = last s # rev (butlast s)"
    by (metis append_butlast_last_id list.distinct(1) rev_append rev_singleton_conv append_Cons append_Nil)
  have 2: "dropWhile p (rev s) = rev s"
    by (subst (1 2) eq) (simp add: l)
  show ?thesis by (simp add: strip_where_def 1 2)
qed

lemma clean_header_iff:
  "clean_header h \<longleftrightarrow> (h = [] \<or> (\<not> strippable (hd h) \<and> \<not> strippable (last h)))"
  by (cases h) (auto simp: clean_header_def)

lemma clean_col_clean: "clean_header h \<Longrightarrow> clean_col h = h"
  unfolding clean_header_iff clean_col_def strip_def strip_chars_def
  by (subst strip_where_id; (subst strip_where_id)?; (subst strip_where_id)?; auto simp: strippable_def)

text \<open>
  C9, as amended. Header normalization leaves a clean header unchanged: a header that
  neither begins nor ends with white space, a double quote or a single quote. Applying it
  twice gives the result of applying it once whenever that result is clean.
\<close>

theorem clean_col_noop_on_clean:
  "(clean_header h \<longrightarrow> clean_col h = h) \<and>
   (clean_header (clean_col h) \<longrightarrow> clean_col (clean_col h) = clean_col h)"
  using clean_col_clean by blast

theorem clean_col_noop_on_clean_witness:
  "clean_header ''Game Name'' \<and> clean_col ''Game Name'' = ''Game Name'' \<and>
   clean_header (clean_col '' \"Type\" '') \<and> clean_col (clean_col '' \"Type\" '') = ''Type''"
  using clean_col_noop_on_clean [of "''Game Name''"] clean_col_noop_on_clean [of "'' \"Type\" ''"]
  by (simp add: clean_header_def strippable_def isspace_def clean_col_def strip_def
      strip_chars_def strip_where_def)

text \<open>
  C9 as stated fails: the header \<^verbatim>\<open>' a'\<close> (single quote, space, a, single quote) becomes
  \<^verbatim>\<open> a\<close> with its leading space, since white space is stripped before the quotes,
  and a second application removes that space.
\<close>

theorem clean_col_not_idempotent:
  "clean_col (clean_col [CHR 0x27, CHR '' '', CHR ''a'', CHR 0x27]) \<noteq>
   clean_col [CHR 0x27, CHR '' '', CHR ''a'', CHR 0x27]"
  by (simp add: clean_col_def strip_chars_def strip_def strip_where_def isspace_def)

text \<open>
  C2, as amended. A missing type becomes null. A value that, stripped of surrounding
  white space and lower-cased, is one of purchase, buy, bought becomes \<^verbatim>\<open>purchase\<close>;
  one of sale, sell, sold becomes \<^verbatim>\<open>sale\<close>. Any other value is returned stripped and
  lower-cased.
\<close>

theorem normalize_type_cases:
  "normalize_type None = None \<and>
   (lower (strip v) \<in> {''purchase'', ''buy'', ''bought''} \<longrightarrow>
      normalize_type (Some v) = Some ''purchase'') \<and>
   (lower (strip v) \<in> {''sale'', ''sell'', ''sold''} \<longrightarrow> normalize_type (Some v) = Some ''sale'') \<and>
   (lower (strip v) \<notin> {''purchase'', ''buy'', ''bought'', ''sale'', ''sell'', ''sold''} \<longrightarrow>
      normalize_type (Some v) = Some (lower (strip v)))"
  by (auto simp: normalize_type_def Let_def)

theorem normalize_type_cases_witness:
  "normalize_type (Some ''buy'') = Some ''purchase'' \<and>
   normalize_type (Some ''bought'') = Some ''purchase'' \<and>
   normalize_type (Some ''Purchase'') = Some ''purchase'' \<and>
   normalize_type (Some ''BUY'') = Some ''purchase'' \<and>
   normalize_type (Some ''Sold'') = Some ''sale'' \<and>
   normalize_type (Some '' Refund '') = Some ''refund''"
  using normalize_type_cases [of "''buy''"] normalize_type_cases [of "''bought''"]
    normalize_type_cases [of "''Purchase''"] normalize_type_cases [of "''BUY''"]
    normalize_type_cases [of "''Sold''"] normalize_type_cases [of "'' Refund ''"]
  by (simp add: lower_def lower_char_def strip_def strip_where_def isspace_def)

text \<open>
  C2 as stated fails: \<^verbatim>\<open>Refund\<close> is none of the six words and is not passed through
  unchanged, it comes back as \<^verbatim>\<open>refund\<close>; and a value of white space only becomes the
  empty string, not null.
\<close>

theorem normalize_type_not_unchanged:
  "lower (strip ''Refund'') \<notin> {''purchase'', ''buy'', ''bought'', ''sale'', ''sell'', ''sold''} \<and>
   normalize_type (Some ''Refund'') \<noteq> Some ''Refund'' \<and>
   normalize_type (Some ''   '') \<noteq> None"
  by (simp add: normalize_type_def lower_def lower_char_def strip_def strip_where_def isspace_def)

text \<open>
  C3. On item names the classifier is a function into the five categories. It tests the
  substrings Capsule, Case, Charm, Sticker in this order and the first that occurs
  decides, so a name with both Capsule and Case is in Capsules; a name with none of
  them is in Weapons.
\<close>

theorem categorize_item_first_match:
  "categorize_item (Some n) \<in> {''Capsules'', ''Cases'', ''Charms'', ''Stickers'', ''Weapons''} \<and>
   (contains ''Capsule'' n \<longrightarrow> categorize_item (Some n) = ''Capsules'') \<and>
   (\<not> contains ''Capsule'' n \<and> contains ''Case'' n \<longrightarrow> categorize_item (Some n) = ''Cases'') \<and>
   (\<not> contains ''Capsule'' n \<and> \<not> contains ''Case'' n \<and> contains ''Charm'' n \<longrightarrow>
      categorize_item (Some n) = ''Charms'') \<and>
   (\<not> contains ''Capsule'' n \<and> \<not> contains ''Case'' n \<and> \<not> contains ''Charm'' n \<and>
    contains ''Sticker'' n \<longrightarrow> categorize_item (Some n) = ''Stickers'') \<and>
   (\<not> contains ''Capsule'' n \<and> \<not> contains ''Case'' n \<and> \<not> contains ''Charm'' n \<and>
    \<not> contains ''Sticker'' n \<longrightarrow> categorize_item (Some n) = ''Weapons'')"
  by (simp add: categorize_item_def)

theorem categorize_item_first_match_witness:
  "contains ''Capsule'' ''Sticker Capsule Case'' \<and> contains ''Case'' ''Sticker Capsule Case'' \<and>
   categorize_item (Some ''Sticker Capsule Case'') = ''Capsules'' \<and>
   categorize_item (Some ''Weapon Case'') = ''Cases'' \<and>
   categorize_item (Some ''Charm | Die-cast AK'') = ''Charms'' \<and>
   categorize_item (Some ''Sticker | Crown'') = ''Stickers'' \<and>
   categorize_item (Some ''AK-47 | Redline'') = ''Weapons''"
  using categorize_item_first_match [of "''Sticker Capsule Case''"]
    categorize_item_first_match [of "''Weapon Case''"]
    categorize_item_first_match [of "''Charm | Die-cast AK''"]
    categorize_item_first_match [of "''Sticker | Crown''"]
    categorize_item_first_match [of "''AK-47 | Redline''"]
  by simp

section \<open>Evaluation of the sample inputs\<close>

lemma sample_df:
  "cs2_df sample_parse sample_to_datetime sample_rows =
     [\<lparr>Game_Name = Some ''Counter-Strike 2'', Acted_On = Some ''1900-01-05'', Type = Some ''sale'',
        Market_Name = Some ''AK-47 | Redline'', Price = Some 1050\<rparr>,
      \<lparr>Game_Name = Some ''Counter-Strike 2'', Acted_On = Some ''1900-01-06'', Type = Some ''purchase'',
        Market_Name = Some ''Sticker Capsule'', Price = Some (1 / 2)\<rparr>,
      \<lparr>Game_Name = Some ''Counter-Strike 2'', Acted_On = Some ''1900-01-06'', Type = Some ''purchase'',
        Market_Name = Some ''Weapon Case'', Price = Some 1050\<rparr>,
      \<lparr>Game_Name = Some ''Counter-Strike 2'', Acted_On = Some ''1900-01-05'', Type = Some ''refund'',
        Market_Name = Some ''AK-47 | Redline'', Price = Some (- 5)\<rparr>]"
  by code_simp

lemma sample_run:
  "main sample_parse sample_to_datetime sample_strftime (Some sample_csv) =
     \<lparr>exit_code = 0, failure = None,
      written =
        \<lparr>summary_json = Some
           \<lparr>summary_total_spent = 21 / 2, summary_total_earned = 21 / 2, summary_net_flow = 0,
            purchase_count = 2, sale_count = 1,
            summary_highest_transaction =
              \<lparr>market_name = Some ''AK-47 | Redline'', price_eur = Some (21 / 2),
               type_name = Some ''sale''\<rparr>,
            summary_item_details =
              [\<lparr>item_Market_Name = ''AK-47 | Redline'', transaction_count = 2, total_eur = 209 / 20\<rparr>,
               \<lparr>item_Market_Name = ''Sticker Capsule'', transaction_count = 1, total_eur = 1 / 200\<rparr>,
               \<lparr>item_Market_Name = ''Weapon Case'', transaction_count = 1, total_eur = 21 / 2\<rparr>]\<rparr>,
         bar_data_json = Some
           [\<lparr>bar_Category = ''Capsules'', spent = 1 / 200, earned = 0\<rparr>,
            \<lparr>bar_Category = ''Cases'', spent = 21 / 2, earned = 0\<rparr>,
            \<lparr>bar_Category = ''Weapons'', spent = 0, earned = 21 / 2\<rparr>],
         line_data_json = Some
           [\<lparr>line_Date = ''1900-01-05'', line_Market_Name = ''AK-47 | Redline'',
             line_value = 209 / 20, line_count = 2\<rparr>,
            \<lparr>line_Date = ''1900-01-06'', line_Market_Name = ''Sticker Capsule'',
             line_value = 1 / 200, line_count = 1\<rparr>,
            \<lparr>line_Date = ''1900-01-06'', line_Market_Name = ''Weapon Case'',
             line_value = 21 / 2, line_count = 1\<rparr>],
         pie_data_json = Some [(''Purchases'', 2), (''Sales'', 1)],
         index_html = True\<rparr>\<rparr>"
  by code_simp


lemma refunds_only_df:
  "purchases (cs2_df sample_parse sample_to_datetime (rows refunds_only_csv)) = [] \<and>
   sales (cs2_df sample_parse sample_to_datetime (rows refunds_only_csv)) = [] \<and>
   cs2_df sample_parse sample_to_datetime (rows refunds_only_csv) \<noteq> []"
  by code_simp

lemma sample_headers:
  "price_col (map clean_col (columns refunds_only_csv)) = Some ''Price in Cents'' \<and>
   set required_cols \<subseteq> set (map clean_col (columns refunds_only_csv))"
  by code_simp


section \<open>Properties of the row filter\<close>

lemma cs2_df_cells:
  assumes "r \<in> set (cs2_df parse to_datetime df)"
  shows "Game_Name r = Some ''Counter-Strike 2'' \<and> Price r \<noteq> None \<and> Acted_On r \<noteq> None \<and>
         Type r \<noteq> None \<and> Market_Name r \<noteq> None"
  using assms
  by (auto simp: cs2_df_def dropna_date_def dropna_def coerce_date_def coerce_price_def
      apply_normalize_type_def cs2_filter_def)

lemma has_valid_type_iff: "has_valid_type df \<longleftrightarrow> purchases df \<noteq> [] \<or> sales df \<noteq> []"
  by (auto simp: has_valid_type_def purchases_def sales_def filter_empty_conv)

text \<open>
  C6, as amended. Every row retained after price coercion and row dropping comes from a
  row whose price cell coerces to a number, and carries that number, which may be
  negative; a row whose price fails the coercion is excluded, never given a default.
\<close>

theorem dropna_keeps_numbers:
  "(\<forall>r \<in> set (dropna (map (coerce_price parse) df)).
      \<exists>r0 \<in> set df. \<exists>x. r = coerce_price parse r0 \<and> to_numeric parse (Price r0) = Some x \<and>
        Price r = Some x) \<and>
   (\<forall>r0 \<in> set df. to_numeric parse (Price r0) = None \<longrightarrow>
      coerce_price parse r0 \<notin> set (dropna (map (coerce_price parse) df)))"
  by (auto simp: dropna_def coerce_price_def)

theorem dropna_keeps_numbers_witness:
  "map Price (dropna (map (coerce_price sample_parse)
      [sample_row ''Counter-Strike 2'' ''05 Jan'' ''buy'' ''Weapon Case'' (Text ''12''),
       sample_row ''Counter-Strike 2'' ''05 Jan'' ''buy'' ''Weapon Case'' (Text ''n/a''),
       sample_row ''Counter-Strike 2'' ''05 Jan'' ''buy'' ''Weapon Case'' NaN,
       sample_row ''Counter-Strike 2'' ''05 Jan'' ''buy'' ''Weapon Case'' (Num 250)])) =
     [Some 12, Some 250] \<and>
   to_numeric sample_parse (Text ''n/a'') = None"
  using dropna_keeps_numbers [of sample_parse
      "[sample_row ''Counter-Strike 2'' ''05 Jan'' ''buy'' ''Weapon Case'' (Text ''12''),
       sample_row ''Counter-Strike 2'' ''05 Jan'' ''buy'' ''Weapon Case'' (Text ''n/a''),
       sample_row ''Counter-Strike 2'' ''05 Jan'' ''buy'' ''Weapon Case'' NaN,
       sample_row ''Counter-Strike 2'' ''05 Jan'' ''buy'' ''Weapon Case'' (Num 250)]"]
  by (simp add: dropna_def coerce_price_def sample_row_def to_numeric_def sample_parse_def)

text \<open>
  C6 as stated fails: nothing in the script tests the sign of a price, and a row with
  the price \<open>-5\<close> is retained with that price.
\<close>

theorem negative_price_retained:
  "map Price (dropna (map (coerce_price sample_parse)
      [sample_row ''Counter-Strike 2'' ''05 Jan'' ''Refund'' ''AK-47 | Redline'' (Num (- 5))])) =
     [Some (- 5)] \<and> (- 5 :: rat) < 0"
  by (simp add: dropna_def coerce_price_def sample_row_def to_numeric_def)

text \<open>
  C4. When no row of the filtered and coerced frame has the type purchase or sale, the
  run ends with exit status 1 and has written none of the four JSON files nor the HTML
  file; with the headers in place, it ends on the no-valid-transactions check.
\<close>

theorem no_valid_transactions_exit:
  "purchases (cs2_df parse to_datetime (rows f)) = [] \<and>
   sales (cs2_df parse to_datetime (rows f)) = [] \<longrightarrow>
     exit_code (main parse to_datetime strftime (Some f)) = 1 \<and>
     written (main parse to_datetime strftime (Some f)) = no_files \<and>
     (price_col (map clean_col (columns f)) \<noteq> None \<and>
      set required_cols \<subseteq> set (map clean_col (columns f)) \<longrightarrow>
        failure (main parse to_datetime strftime (Some f)) = Some NoValidTransactions)"
  by (auto simp: main_def Let_def fail_def has_valid_type_iff filter_empty_conv split: option.splits)

theorem no_valid_transactions_exit_witness:
  "purchases (cs2_df sample_parse sample_to_datetime (rows refunds_only_csv)) = [] \<and>
   sales (cs2_df sample_parse sample_to_datetime (rows refunds_only_csv)) = [] \<and>
   price_col (map clean_col (columns refunds_only_csv)) \<noteq> None \<and>
   set required_cols \<subseteq> set (map clean_col (columns refunds_only_csv)) \<and>
   main sample_parse sample_to_datetime sample_strftime (Some refunds_only_csv) =
     \<lparr>exit_code = 1, failure = Some NoValidTransactions, written = no_files\<rparr>"
  using no_valid_transactions_exit [of sample_parse sample_to_datetime refunds_only_csv sample_strftime]
    refunds_only_df sample_headers
  by (cases "main sample_parse sample_to_datetime sample_strftime (Some refunds_only_csv)") simp

section \<open>The highest transaction\<close>











section \<open>The category bar data\<close>

lemma set_map_filter_key: "set (List.map_filter key df) = {k. \<exists>r \<in> set df. key r = Some k}"
  by (induction df) (auto split: option.splits)

lemma set_group_keys: "set (group_keys key df) = {k. \<exists>r \<in> set df. key r = Some k}"
  by (simp add: group_keys_def set_map_filter_key)

lemma sort_remdups_twice:
  "sort (remdups (sort (remdups xs) @ sort (remdups xs))) = sort (remdups xs)"
  by (rule sorted_distinct_set_unique) auto

lemma find_append_case:
  "find P (xs @ ys) = (case find P xs of None \<Rightarrow> find P ys | Some x \<Rightarrow> Some x)"
  by (induction xs) auto

lemma find_map_key:
  "c \<in> set cs \<Longrightarrow>
     find (\<lambda>(c', t', a). c' = c \<and> t' = t) (map (\<lambda>c. (c, t, f c)) cs) = Some (c, t, f c)"
  by (induction cs) auto

lemma find_map_other:
  "t \<noteq> u \<Longrightarrow> find (\<lambda>(c', t', a). c' = c \<and> t' = t) (map (\<lambda>c. (c, u, f c)) cs) = None"
  by (induction cs) auto

lemma get_group_no_key: "k \<notin> set (group_keys key df) \<Longrightarrow> get_group key k df = []"
  by (auto simp: set_group_keys get_group_def filter_empty_conv)

lemma wide_cell_unstacked:
  "wide_cell (unstacked df) c t = nansum (map Price (get_group Category_Type (c, t) df)) / 100"
  by (simp add: unstacked_def Let_def get_group_no_key)

lemma wide_index_unstacked:
  "set (wide_index (unstacked df)) = {c. \<exists>r \<in> set df. \<exists>t. Category_Type r = Some (c, t)}"
  by (force simp: unstacked_def Let_def set_group_keys)

lemma wide_columns_unstacked:
  "set (wide_columns (unstacked df)) = {t. \<exists>r \<in> set df. \<exists>c. Category_Type r = Some (c, t)}"
  by (force simp: unstacked_def Let_def set_group_keys)

lemma Category_Type_Some:
  "Category_Type r = Some (c, t) \<longleftrightarrow> categorize_item (Market_Name r) = c \<and> Type r = Some t"
  by (auto simp: Category_Type_def Category_def split: option.splits)

lemma wide_columns_types: "set (wide_columns (unstacked df)) = {t. \<exists>r \<in> set df. Type r = Some t}"
  by (auto simp: wide_columns_unstacked Category_Type_Some)

lemma bar_data_Inl:
  "bar_data df = Inl e \<longleftrightarrow>
     e = KeyError (filter (\<lambda>v. v \<notin> set (wide_columns (unstacked df))) [''purchase'', ''sale'']) \<and>
     \<not> {''purchase'', ''sale''} \<subseteq> set (wide_columns (unstacked df))"
  by (auto simp: bar_data_def melt_def Let_def split: sum.splits if_splits)

lemma bar_data_Inr:
  assumes "bar_data df = Inr bars"
  shows "bars = map (\<lambda>c. \<lparr>bar_Category = c,
            spent = nansum (map Price (get_group Category_Type (c, ''purchase'') df)) / 100,
            earned = nansum (map Price (get_group Category_Type (c, ''sale'') df)) / 100\<rparr>)
          (wide_index (unstacked df))"
proof -
  let ?w = "unstacked df"
  let ?long = "map (\<lambda>c. (c, ''purchase'', wide_cell ?w c ''purchase'')) (wide_index ?w) @
               map (\<lambda>c. (c, ''sale'', wide_cell ?w c ''sale'')) (wide_index ?w)"
  from assms have bars: "bars = pivot_records ?long"
    by (auto simp: bar_data_def melt_def Let_def split: sum.splits if_splits)
  have idx: "sort (remdups (map fst ?long)) = wide_index ?w"
    by (simp add: comp_def unstacked_def Let_def sort_remdups_twice)
  have p: "amount ?long c ''purchase'' = wide_cell ?w c ''purchase''" if "c \<in> set (wide_index ?w)" for c
    unfolding amount_def find_append_case find_map_key [OF that] by simp
  have other: "find (\<lambda>(c', t', a). c' = c \<and> t' = ''sale'')
      (map (\<lambda>c. (c, ''purchase'', wide_cell ?w c ''purchase'')) (wide_index ?w)) = None" for c
    by (rule find_map_other) simp
  have s: "amount ?long c ''sale'' = wide_cell ?w c ''sale''" if "c \<in> set (wide_index ?w)" for c
    unfolding amount_def find_append_case find_map_key [OF that] other by simp
  show ?thesis
    unfolding bars pivot_records_def idx
    by (rule map_cong, simp) (simp only: p s, simp only: wide_cell_unstacked)
qed

text \<open>The reshaping fails exactly when the frame has no purchase row or no sale row.\<close>

lemma bar_data_KeyError_iff:
  "(\<exists>e. bar_data df = Inl e) \<longleftrightarrow> purchases df = [] \<or> sales df = []"
  by (auto simp: bar_data_Inl wide_columns_types purchases_def sales_def filter_empty_conv)

lemma bar_data_sales_absent:
  assumes "purchases df \<noteq> []" "sales df = []"
  shows "bar_data df = Inl (KeyError [''sale''])"
proof -
  from assms have "''purchase'' \<in> set (wide_columns (unstacked df))"
    and "''sale'' \<notin> set (wide_columns (unstacked df))"
    by (auto simp: wide_columns_types purchases_def sales_def filter_empty_conv)
  then show ?thesis by (simp add: bar_data_Inl)
qed

text \<open>
  With both types in the frame there is one record per category that occurs, in order,
  and its two fields are the sums of the category's purchase and sale prices in currency
  units, a sum over no rows being 0.
\<close>

lemma bar_data_both_types:
  assumes "purchases df \<noteq> []" "sales df \<noteq> []"
  shows "\<exists>bars. bar_data df = Inr bars \<and>
           map bar_Category bars = sort (remdups (List.map_filter (map_option fst \<circ> Category_Type) df)) \<and>
           (\<forall>b \<in> set bars.
              spent b = nansum (map Price (get_group Category_Type (bar_Category b, ''purchase'') df)) / 100 \<and>
              earned b = nansum (map Price (get_group Category_Type (bar_Category b, ''sale'') df)) / 100)"
proof -
  from assms have "\<not> (\<exists>e. bar_data df = Inl e)" by (simp add: bar_data_KeyError_iff)
  then obtain bars where b: "bar_data df = Inr bars" by (cases "bar_data df") auto
  note eq = bar_data_Inr [OF b]
  have "map bar_Category bars = wide_index (unstacked df)"
    by (subst eq) (simp add: comp_def)
  also have "\<dots> = sort (remdups (List.map_filter (map_option fst \<circ> Category_Type) df))"
  proof (rule sorted_distinct_set_unique)
    show "set (wide_index (unstacked df)) =
        set (sort (remdups (List.map_filter (map_option fst \<circ> Category_Type) df)))"
      by (force simp: wide_index_unstacked set_map_filter_key)
  qed (simp_all add: unstacked_def Let_def)
  finally have cats: "map bar_Category bars =
      sort (remdups (List.map_filter (map_option fst \<circ> Category_Type) df))" .
  have "\<forall>b \<in> set bars.
      spent b = nansum (map Price (get_group Category_Type (bar_Category b, ''purchase'') df)) / 100 \<and>
      earned b = nansum (map Price (get_group Category_Type (bar_Category b, ''sale'') df)) / 100"
    by (subst eq) auto
  with b cats show ?thesis by blast
qed

text \<open>
  C7. The claim asks for a record with \<open>earned = 0\<close> when the whole frame has no sale.
  On a table whose only row is a purchase the run passes the no-valid-transactions check,
  writes the summary, and then ends with status 1 on the \<^verbatim>\<open>KeyError\<close> of \<^verbatim>\<open>melt\<close>:
  no bar data is written.
\<close>

theorem purchases_only_run:
  "main sample_parse sample_to_datetime sample_strftime (Some purchases_only_csv) =
     \<lparr>exit_code = 1, failure = Some (KeyError [''sale'']),
      written = no_files\<lparr>summary_json := Some
        \<lparr>summary_total_spent = 5 / 2, summary_total_earned = 0, summary_net_flow = - (5 / 2),
         purchase_count = 1, sale_count = 0,
         summary_highest_transaction =
           \<lparr>market_name = Some ''Weapon Case'', price_eur = Some (5 / 2), type_name = Some ''purchase''\<rparr>,
         summary_item_details =
           [\<lparr>item_Market_Name = ''Weapon Case'', transaction_count = 1, total_eur = 5 / 2\<rparr>]\<rparr>\<rparr>\<rparr>"
  by code_simp

lemma main_bar_data:
  assumes "bar_data_json (written (main parse to_datetime strftime file)) = Some bars"
  shows "\<exists>f. file = Some f \<and> bar_data (cs2_df parse to_datetime (rows f)) = Inr bars"
  using assms
  by (auto simp: main_def Let_def fail_def no_files_def split: option.splits if_splits sum.splits)

lemma categorize_item_Some:
  "categorize_item (Some n) \<in> {''Capsules'', ''Cases'', ''Charms'', ''Stickers'', ''Weapons''}"
  by (simp add: categorize_item_def)

text \<open>
  C10. Every row of the frame that reaches the classifier has an item name, so its
  category is never \<^verbatim>\<open>Unknown\<close>; and in every run that writes the bar data, the
  category of each record is one of Capsules, Cases, Charms, Stickers, Weapons.
\<close>

theorem bar_category_never_unknown:
  "(\<forall>r \<in> set (cs2_df parse to_datetime raw). Market_Name r \<noteq> None \<and> Category r \<noteq> Some ''Unknown'') \<and>
   (bar_data_json (written (main parse to_datetime strftime file)) = Some bars \<longrightarrow>
      (\<forall>b \<in> set bars. bar_Category b \<in> {''Capsules'', ''Cases'', ''Charms'', ''Stickers'', ''Weapons''} \<and>
         bar_Category b \<noteq> ''Unknown''))"
proof -
  have rows_named: "Market_Name r \<noteq> None \<and> Category r \<noteq> Some ''Unknown''"
    if "r \<in> set (cs2_df parse to_datetime raw)" for r
  proof -
    from that have "Market_Name r \<noteq> None" using cs2_df_cells by blast
    then obtain n where n: "Market_Name r = Some n" by auto
    show ?thesis using categorize_item_Some [of n] by (auto simp: n Category_def)
  qed
  have bars_named: "bar_Category b \<in> {''Capsules'', ''Cases'', ''Charms'', ''Stickers'', ''Weapons''} \<and>
         bar_Category b \<noteq> ''Unknown''"
    if a: "bar_data_json (written (main parse to_datetime strftime file)) = Some bars"
      and b: "b \<in> set bars" for b
  proof -
    from main_bar_data[OF a] obtain f :: csv
      where bd: "bar_data (cs2_df parse to_datetime (rows f)) = Inr bars"
      by auto
    let ?df = "cs2_df parse to_datetime (rows f)"
    from bar_data_Inr[OF bd] b have "bar_Category b \<in> set (wide_index (unstacked ?df))"
      by auto
    then obtain r t where r: "r \<in> set ?df" "Category_Type r = Some (bar_Category b, t)"
      by (auto simp: wide_index_unstacked)
    from r(1) have "Market_Name r \<noteq> None" using cs2_df_cells by blast
    then obtain n where n: "Market_Name r = Some n" by auto
    from r(2) have "bar_Category b = categorize_item (Some n)"
      by (auto simp: Category_Type_def Category_def n split: option.splits)
    then show ?thesis using categorize_item_Some [of n] by auto
  qed
  from rows_named bars_named show ?thesis by blast
qed

theorem bar_category_never_unknown_witness:
  "map Market_Name (cs2_df sample_parse sample_to_datetime sample_rows) =
     [Some ''AK-47 | Redline'', Some ''Sticker Capsule'', Some ''Weapon Case'', Some ''AK-47 | Redline''] \<and>
   map Category (cs2_df sample_parse sample_to_datetime sample_rows) =
     [Some ''Weapons'', Some ''Capsules'', Some ''Cases'', Some ''Weapons''] \<and>
   map_option (map bar_Category)
     (bar_data_json (written (main sample_parse sample_to_datetime sample_strftime (Some sample_csv)))) =
     Some [''Capsules'', ''Cases'', ''Weapons'']"
  using bar_category_never_unknown [of sample_parse sample_to_datetime sample_rows sample_strftime
      "Some sample_csv"
      "[\<lparr>bar_Category = ''Capsules'', spent = 1 / 200, earned = 0\<rparr>,
        \<lparr>bar_Category = ''Cases'', spent = 21 / 2, earned = 0\<rparr>,
        \<lparr>bar_Category = ''Weapons'', spent = 0, earned = 21 / 2\<rparr>]"]
  by (simp add: sample_run sample_df Category_def categorize_item_def)

section \<open>Rounding\<close>


















end
